theory Spec2Isabelle
  imports Main
begin

section \<open>The document tree\<close>

text \<open>
  \<^verbatim>\<open>pyproject.py\<close> works on the tree that the TOML library returns for a
  \<^verbatim>\<open>pyproject.toml\<close>. The code never asks an item for its type before it uses it, so
  the tree is modelled with every shape a field can have: strings (with the library's four
  string types, two of them multi-line), integers, booleans, arrays and tables. A float, a
  date or a time is \<open>TOther\<close>: the code can only observe its truth value.
  A table keeps its keys in file order.
\<close>

datatype string_type = SLB | MLB | SLL | MLL

datatype toml =
    TString string_type string
  | TInteger int
  | TBool bool
  | TOther bool
  | TArray "toml list"
  | TTable "(string \<times> toml) list"

type_synonym toml_doc = "(string \<times> toml) list"

text \<open>The exceptions of Python that the operations on the tree can raise.\<close>

datatype py_error = TypeError | AttributeError | KeyError | ValueError | OSError | TOMLError


subsection \<open>Sequencing of operations that can raise\<close>

definition ebind :: "py_error + 'a \<Rightarrow> ('a \<Rightarrow> py_error + 'b) \<Rightarrow> py_error + 'b" where
  "ebind r f = (case r of Inl e \<Rightarrow> Inl e | Inr x \<Rightarrow> f x)"

text \<open>\<^verbatim>\<open>a or b\<close> on two tests that can raise: \<open>b\<close> is evaluated only when \<open>a\<close> is false.\<close>

definition or_else :: "py_error + bool \<Rightarrow> py_error + bool \<Rightarrow> py_error + bool" where
  "or_else a b = ebind a (\<lambda>x. if x then Inr True else b)"

subsection \<open>Python's operators on items\<close>

text \<open>\<^verbatim>\<open>sub in s\<close> on two strings: \<open>sub\<close> occurs in \<open>s\<close> as a contiguous run.\<close>

fun str_contains :: "string \<Rightarrow> string \<Rightarrow> bool" where
  "str_contains sub [] = (sub = [])"
| "str_contains sub (c # cs) = (take (length sub) (c # cs) = sub \<or> str_contains sub cs)"

text \<open>\<^verbatim>\<open>k == item\<close> for a Python string \<open>k\<close>: only a string item with the same text.\<close>

fun str_eq :: "string \<Rightarrow> toml \<Rightarrow> bool" where
  "str_eq k (TString ty s) = (s = k)"
| "str_eq k v = False"

definition has_key :: "toml_doc \<Rightarrow> string \<Rightarrow> bool" where
  "has_key t k = (map_of t k \<noteq> None)"

text \<open>
  \<^verbatim>\<open>k in item\<close>: a substring test on a string, an element test on an array, a key test on
  a table, and a \<^verbatim>\<open>TypeError\<close> on anything else.
\<close>

fun py_in :: "string \<Rightarrow> toml \<Rightarrow> py_error + bool" where
  "py_in k (TString ty s) = Inr (str_contains k s)"
| "py_in k (TArray xs) = Inr (list_ex (str_eq k) xs)"
| "py_in k (TTable kvs) = Inr (has_key kvs k)"
| "py_in k v = Inl TypeError"

text \<open>\<^verbatim>\<open>table.get(k, default)\<close> on the document itself.\<close>

definition doc_get :: "toml_doc \<Rightarrow> string \<Rightarrow> toml \<Rightarrow> toml" where
  "doc_get t k d = (case map_of t k of None \<Rightarrow> d | Some v \<Rightarrow> v)"

text \<open>\<^verbatim>\<open>item.get(k, default)\<close>: only a table has the method.\<close>

fun item_get :: "toml \<Rightarrow> string \<Rightarrow> toml \<Rightarrow> py_error + toml" where
  "item_get (TTable kvs) k d = Inr (doc_get kvs k d)"
| "item_get v k d = Inl AttributeError"

text \<open>\<^verbatim>\<open>table[k]\<close> on the document, and \<^verbatim>\<open>item[k]\<close> with a string key on any item.\<close>

definition doc_getitem :: "toml_doc \<Rightarrow> string \<Rightarrow> py_error + toml" where
  "doc_getitem t k = (case map_of t k of None \<Rightarrow> Inl KeyError | Some v \<Rightarrow> Inr v)"

fun py_getitem :: "toml \<Rightarrow> string \<Rightarrow> py_error + toml" where
  "py_getitem (TTable kvs) k = doc_getitem kvs k"
| "py_getitem v k = Inl TypeError"

text \<open>
  \<^verbatim>\<open>for x in item\<close>: the characters of a string, the elements of an array, the keys of a
  table.
\<close>

fun py_iter :: "toml \<Rightarrow> py_error + toml list" where
  "py_iter (TString ty s) = Inr (map (\<lambda>c. TString SLB [c]) s)"
| "py_iter (TArray xs) = Inr xs"
| "py_iter (TTable kvs) = Inr (map (\<lambda>kv. TString SLB (fst kv)) kvs)"
| "py_iter v = Inl TypeError"

text \<open>\<^verbatim>\<open>any(k in x for x in xs)\<close>: stops at the first element that contains \<open>k\<close>.\<close>

fun any_in :: "string \<Rightarrow> toml list \<Rightarrow> py_error + bool" where
  "any_in k [] = Inr False"
| "any_in k (x # xs) = or_else (py_in k x) (any_in k xs)"

text \<open>The truth value of an item (\<^verbatim>\<open>not item\<close> is its negation).\<close>

fun py_truthy :: "toml \<Rightarrow> bool" where
  "py_truthy (TString ty s) = (s \<noteq> [])"
| "py_truthy (TInteger i) = (i \<noteq> 0)"
| "py_truthy (TBool b) = b"
| "py_truthy (TOther b) = b"
| "py_truthy (TArray xs) = (xs \<noteq> [])"
| "py_truthy (TTable kvs) = (kvs \<noteq> [])"

fun is_list :: "toml \<Rightarrow> bool" where
  "is_list (TArray xs) = True"
| "is_list v = False"

fun is_str :: "toml \<Rightarrow> bool" where
  "is_str (TString ty s) = True"
| "is_str v = False"

text \<open>
  \<^verbatim>\<open>table[k] = v\<close>: the value of an existing key is replaced where it stands, a new key is
  added at the end.
\<close>

fun alist_set :: "string \<Rightarrow> toml \<Rightarrow> toml_doc \<Rightarrow> toml_doc" where
  "alist_set k v [] = [(k, v)]"
| "alist_set k v (p # ps) = (if fst p = k then (k, v) # ps else p # alist_set k v ps)"

fun py_setitem :: "toml \<Rightarrow> string \<Rightarrow> toml \<Rightarrow> py_error + toml" where
  "py_setitem (TTable kvs) k v = Inr (TTable (alist_set k v kvs))"
| "py_setitem u k v = Inl TypeError"

section \<open>The keywords of pyproject.toml\<close>

abbreviation CLASSIFIERS :: string where "CLASSIFIERS \<equiv> ''classifiers''"
abbreviation DEPENDENCIES :: string where "DEPENDENCIES \<equiv> ''dependencies''"
abbreviation PYTHON :: string where "PYTHON \<equiv> ''python''"
abbreviation PYTHON_REQUIRES :: string where "PYTHON_REQUIRES \<equiv> ''requires-python''"
abbreviation TOOL :: string where "TOOL \<equiv> ''tool''"
abbreviation POETRY :: string where "POETRY \<equiv> ''poetry''"
abbreviation BUILD_SYSTEM :: string where "BUILD_SYSTEM \<equiv> ''build-system''"
abbreviation BUILD_BACKEND :: string where "BUILD_BACKEND \<equiv> ''build-backend''"
abbreviation REQUIRES :: string where "REQUIRES \<equiv> ''requires''"
abbreviation PROJECT :: string where "PROJECT \<equiv> ''project''"
abbreviation SETUPTOOLS :: string where "SETUPTOOLS \<equiv> ''setuptools''"
abbreviation FLIT :: string where "FLIT \<equiv> ''flit''"

section \<open>The schema detectors\<close>

definition is_poetry_toml :: "toml_doc \<Rightarrow> py_error + bool" where
  "is_poetry_toml t =
     ebind (py_in POETRY (doc_get t TOOL (TTable []))) (\<lambda>in_tool.
     if in_tool then Inr True
     else if has_key t BUILD_SYSTEM then
       ebind (doc_getitem t BUILD_SYSTEM) (\<lambda>bs.
       ebind (item_get bs BUILD_BACKEND (TString SLB [])) (\<lambda>backend.
       ebind (py_in POETRY backend) (\<lambda>in_backend.
       if in_backend then Inr True
       else
         ebind (item_get bs REQUIRES (TArray [])) (\<lambda>req.
         ebind (py_iter req) (\<lambda>xs.
         ebind (any_in POETRY xs) (\<lambda>in_requires.
         if in_requires then Inr True else Inr False))))))
     else Inr False)"

definition is_setuptools_toml :: "toml_doc \<Rightarrow> py_error + bool" where
  "is_setuptools_toml t =
     ebind
       (if has_key t BUILD_SYSTEM then
          ebind (doc_getitem t BUILD_SYSTEM) (\<lambda>bs.
          ebind (item_get bs BUILD_BACKEND (TString SLB [])) (\<lambda>backend.
          ebind (py_in SETUPTOOLS backend) (\<lambda>in_backend.
          if in_backend then Inr True
          else
            ebind (item_get bs REQUIRES (TArray [])) (\<lambda>req.
            ebind (py_iter req) (\<lambda>xs.
            any_in SETUPTOOLS xs)))))
        else Inr False)
       (\<lambda>found.
     if found then Inr True
     else
       ebind (py_in SETUPTOOLS (doc_get t TOOL (TTable []))) (\<lambda>in_tool.
       if in_tool then Inr True else Inr False))"

definition is_flit_toml :: "toml_doc \<Rightarrow> py_error + bool" where
  "is_flit_toml t =
     ebind (py_in FLIT (doc_get t TOOL (TTable []))) (\<lambda>in_tool.
     if in_tool then Inr True
     else if has_key t BUILD_SYSTEM then
       ebind (doc_getitem t BUILD_SYSTEM) (\<lambda>bs.
       ebind (item_get bs BUILD_BACKEND (TString SLB [])) (\<lambda>backend.
       ebind (py_in FLIT backend) (\<lambda>in_backend.
       if in_backend then Inr True
       else
         ebind (item_get bs REQUIRES (TArray [])) (\<lambda>req.
         ebind (py_iter req) (\<lambda>xs.
         ebind (any_in FLIT xs) (\<lambda>in_requires.
         if in_requires then Inr True else Inr False))))))
     else Inr False)"

section \<open>Reading and writing the declarations in a loaded document\<close>

text \<open>
  The private helpers of the source are named here without their leading underscore. An
  empty Python list is the empty array.
\<close>

definition get_poetry_classifiers :: "toml_doc \<Rightarrow> py_error + toml" where
  "get_poetry_classifiers t =
     (if \<not> has_key t TOOL then Inr (TArray [])
      else
        ebind (doc_getitem t TOOL) (\<lambda>tool.
        ebind (py_in POETRY tool) (\<lambda>has_poetry.
        if \<not> has_poetry then Inr (TArray [])
        else
          ebind (py_getitem tool POETRY) (\<lambda>poetry.
          ebind (py_in CLASSIFIERS poetry) (\<lambda>has_classifiers.
          if \<not> has_classifiers then Inr (TArray [])
          else py_getitem poetry CLASSIFIERS)))))"

definition get_setuptools_flit_classifiers :: "toml_doc \<Rightarrow> py_error + toml" where
  "get_setuptools_flit_classifiers t =
     (if \<not> has_key t PROJECT then Inr (TArray [])
      else
        ebind (doc_getitem t PROJECT) (\<lambda>project.
        ebind (py_in CLASSIFIERS project) (\<lambda>has_classifiers.
        if \<not> has_classifiers then Inr (TArray [])
        else py_getitem project CLASSIFIERS)))"

definition get_poetry_python_requires :: "toml_doc \<Rightarrow> py_error + toml option" where
  "get_poetry_python_requires t =
     (if \<not> has_key t TOOL then Inr None
      else
        ebind (doc_getitem t TOOL) (\<lambda>tool.
        ebind (py_in POETRY tool) (\<lambda>has_poetry.
        if \<not> has_poetry then Inr None
        else
          ebind (py_getitem tool POETRY) (\<lambda>poetry.
          ebind (py_in DEPENDENCIES poetry) (\<lambda>has_dependencies.
          if \<not> has_dependencies then Inr None
          else
            ebind (py_getitem poetry DEPENDENCIES) (\<lambda>deps.
            ebind (py_in PYTHON deps) (\<lambda>has_python.
            if \<not> has_python then Inr None
            else ebind (py_getitem deps PYTHON) (\<lambda>v. Inr (Some v)))))))))"

definition get_setuptools_flit_python_requires :: "toml_doc \<Rightarrow> py_error + toml option" where
  "get_setuptools_flit_python_requires t =
     (if \<not> has_key t PROJECT then Inr None
      else
        ebind (doc_getitem t PROJECT) (\<lambda>project.
        ebind (py_in PYTHON_REQUIRES project) (\<lambda>has_requires.
        if \<not> has_requires then Inr None
        else ebind (py_getitem project PYTHON_REQUIRES) (\<lambda>v. Inr (Some v)))))"

text \<open>
  The setters change the table in place and return its serialisation, split into lines. The
  serialiser belongs to the TOML library; the model returns the changed document that is
  handed to it.
\<close>

definition set_poetry_classifiers :: "toml_doc \<Rightarrow> toml \<Rightarrow> py_error + toml_doc" where
  "set_poetry_classifiers t new_value =
     ebind (doc_getitem t TOOL) (\<lambda>tool.
     ebind (py_getitem tool POETRY) (\<lambda>poetry.
     ebind (py_setitem poetry CLASSIFIERS new_value) (\<lambda>poetry'.
     ebind (py_setitem tool POETRY poetry') (\<lambda>tool'.
     Inr (alist_set TOOL tool' t)))))"

definition set_setuptools_flit_classifiers :: "toml_doc \<Rightarrow> toml \<Rightarrow> py_error + toml_doc" where
  "set_setuptools_flit_classifiers t new_value =
     ebind (doc_getitem t PROJECT) (\<lambda>project.
     ebind (py_setitem project CLASSIFIERS new_value) (\<lambda>project'.
     Inr (alist_set PROJECT project' t)))"

definition set_poetry_python_requires :: "toml_doc \<Rightarrow> toml \<Rightarrow> py_error + toml_doc" where
  "set_poetry_python_requires t new_value =
     ebind (doc_getitem t TOOL) (\<lambda>tool.
     ebind (py_getitem tool POETRY) (\<lambda>poetry.
     ebind (py_getitem poetry DEPENDENCIES) (\<lambda>deps.
     ebind (py_setitem deps PYTHON new_value) (\<lambda>deps'.
     ebind (py_setitem poetry DEPENDENCIES deps') (\<lambda>poetry'.
     ebind (py_setitem tool POETRY poetry') (\<lambda>tool'.
     Inr (alist_set TOOL tool' t)))))))"

definition set_setuptools_flit_python_requires :: "toml_doc \<Rightarrow> toml \<Rightarrow> py_error + toml_doc" where
  "set_setuptools_flit_python_requires t new_value =
     ebind (doc_getitem t PROJECT) (\<lambda>project.
     ebind (py_setitem project PYTHON_REQUIRES new_value) (\<lambda>project'.
     Inr (alist_set PROJECT project' t)))"

section \<open>Versions and the range expression\<close>

type_synonym version = "nat \<times> nat"

definition version_less :: "version \<Rightarrow> version \<Rightarrow> bool" where
  "version_less a b = (fst a < fst b \<or> (fst a = fst b \<and> snd a < snd b))"

fun show_nat :: "nat \<Rightarrow> string" where
  "show_nat n =
     (if n < 10 then [''0123456789'' ! n]
      else show_nat (n div 10) @ [''0123456789'' ! (n mod 10)])"

declare show_nat.simps [simp del]

definition render :: "version \<Rightarrow> string" where
  "render v = show_nat (fst v) @ ''.'' @ show_nat (snd v)"

fun join :: "string \<Rightarrow> string list \<Rightarrow> string" where
  "join sep [] = []"
| "join sep [x] = x"
| "join sep (x # y # ys) = x @ sep @ join sep (y # ys)"

text \<open>
  Modelled from the spec: \<^verbatim>\<open>compute_python_requires\<close> of \<^verbatim>\<open>setup_py.py\<close>, which is
  not among the sources. The spec's \<^verbatim>\<open>encode(versions, comma, space)\<close> emits
  \<^verbatim>\<open>>=<space><first>\<close>, then \<^verbatim>\<open>!=<space><excluded>.*\<close> for every version between the
  first and the maximum known version that is not in the input list, in ascending order,
  each clause joined by \<^verbatim>\<open>comma\<close>. The known versions are a parameter, in ascending
  order. The spec leaves the empty list undefined; it is an error here.
\<close>

definition compute_python_requires ::
  "version list \<Rightarrow> version list \<Rightarrow> string \<Rightarrow> string \<Rightarrow> py_error + string" where
  "compute_python_requires known new_versions comma space =
     (case new_versions of
        [] \<Rightarrow> Inl ValueError
      | first # rest \<Rightarrow>
          Inr (join comma
            ((''>='' @ space @ render first) #
             map (\<lambda>v. ''!='' @ space @ render v @ ''.*'')
               (filter (\<lambda>v. version_less first v \<and> v \<notin> set new_versions) known))))"

section \<open>Files, streams and the error stream\<close>

text \<open>
  The argument of every public operation is a file name or an open file. A stream is its
  text, the position of the next read, and the calls made on it so far, oldest first. What lies outside \<^verbatim>\<open>pyproject.py\<close> is a
  parameter: the files on disk, the TOML parser, the known versions, and the three other
  functions of \<^verbatim>\<open>setup_py.py\<close> that the module calls. \<^verbatim>\<open>parse_python_requires\<close> returns
  the diagnostics it writes together with its result.
\<close>

datatype stream_call = Read | Seek nat

record stream =
  content :: string
  pos :: nat
  calls :: "stream_call list"

datatype file_or_filename =
    Filename string
  | StringIO stream
  | TextIOWrapper stream
  | FileObject stream

record world =
  fobj :: file_or_filename
  stderr :: "string list"

record env =
  fs :: "string \<Rightarrow> string option"
  toml_parse :: "string \<Rightarrow> py_error + toml_doc"
  known_versions :: "version list"
  parse_python_requires :: "string \<Rightarrow> string list \<times> (py_error + version list option)"
  get_versions_from_classifiers :: "toml list \<Rightarrow> py_error + version list"
  update_classifiers :: "toml list \<Rightarrow> version list \<Rightarrow> py_error + string list"

type_synonym 'a prog = "world \<Rightarrow> (py_error + 'a) \<times> world"

definition ret :: "'a \<Rightarrow> 'a prog" where
  "ret x = (\<lambda>w. (Inr x, w))"

definition lift :: "py_error + 'a \<Rightarrow> 'a prog" where
  "lift r = (\<lambda>w. (r, w))"

definition pbind :: "'a prog \<Rightarrow> ('a \<Rightarrow> 'b prog) \<Rightarrow> 'b prog" where
  "pbind m f = (\<lambda>w. case m w of (Inl e, w') \<Rightarrow> (Inl e, w') | (Inr x, w') \<Rightarrow> f x w')"

text \<open>
  Modelled from the spec: \<^verbatim>\<open>warn\<close> of \<^verbatim>\<open>utils.py\<close>, which is not among the sources:
  a diagnostic is one plain text line on the error stream.
\<close>

definition warn :: "string \<Rightarrow> unit prog" where
  "warn msg = (\<lambda>w. (Inr (), w\<lparr>stderr := stderr w @ [msg]\<rparr>))"

text \<open>\<^verbatim>\<open>fp.read()\<close>: the text from the position to the end; the position moves to the end.\<close>

definition read_stream :: "stream \<Rightarrow> string \<times> stream" where
  "read_stream s =
     (drop (pos s) (content s),
      s\<lparr>pos := max (pos s) (length (content s)), calls := calls s @ [Read]\<rparr>)"

definition seek :: "nat \<Rightarrow> stream \<Rightarrow> stream" where
  "seek n s = s\<lparr>pos := n, calls := calls s @ [Seek n]\<rparr>"

text \<open>
  \<^verbatim>\<open>load_toml\<close> opens a file name, reads a \<^verbatim>\<open>StringIO\<close> or a \<^verbatim>\<open>TextIOWrapper\<close> from
  where it stands, and returns \<^verbatim>\<open>None\<close> for any other object.
\<close>

definition load_toml :: "env \<Rightarrow> toml_doc option prog" where
  "load_toml ev w =
     (case fobj w of
        Filename p \<Rightarrow>
          (case fs ev p of
             None \<Rightarrow> (Inl OSError, w)
           | Some text \<Rightarrow>
               (case toml_parse ev text of
                  Inl e \<Rightarrow> (Inl e, w)
                | Inr t \<Rightarrow> (Inr (Some t), w)))
      | StringIO s \<Rightarrow>
          (case toml_parse ev (fst (read_stream s)) of
             Inl e \<Rightarrow> (Inl e, w\<lparr>fobj := StringIO (snd (read_stream s))\<rparr>)
           | Inr t \<Rightarrow> (Inr (Some t), w\<lparr>fobj := StringIO (snd (read_stream s))\<rparr>))
      | TextIOWrapper s \<Rightarrow>
          (case toml_parse ev (fst (read_stream s)) of
             Inl e \<Rightarrow> (Inl e, w\<lparr>fobj := TextIOWrapper (snd (read_stream s))\<rparr>)
           | Inr t \<Rightarrow> (Inr (Some t), w\<lparr>fobj := TextIOWrapper (snd (read_stream s))\<rparr>))
      | FileObject s \<Rightarrow> (Inr None, w))"

text \<open>
  Every caller hands the loaded table to \<^verbatim>\<open>is_poetry_toml\<close> first, whose
  \<^verbatim>\<open>table.get\<close> raises \<^verbatim>\<open>AttributeError\<close> on \<^verbatim>\<open>None\<close>.
\<close>

definition loaded :: "toml_doc option \<Rightarrow> py_error + toml_doc" where
  "loaded table = (case table of None \<Rightarrow> Inl AttributeError | Some t \<Rightarrow> Inr t)"

text \<open>
  \<^verbatim>\<open>if is_file_object(filename): filename.seek(0)\<close>: every argument but a file name has a
  \<^verbatim>\<open>read\<close> attribute.
\<close>

definition seek_start :: "unit prog" where
  "seek_start w =
     (case fobj w of
        Filename p \<Rightarrow> (Inr (), w)
      | StringIO s \<Rightarrow> (Inr (), w\<lparr>fobj := StringIO (seek 0 s)\<rparr>)
      | TextIOWrapper s \<Rightarrow> (Inr (), w\<lparr>fobj := TextIOWrapper (seek 0 s)\<rparr>)
      | FileObject s \<Rightarrow> (Inr (), w\<lparr>fobj := FileObject (seek 0 s)\<rparr>))"

section \<open>The operations on a file\<close>

text \<open>
  Each of the four helpers that take a file loads the table and then works on it. The work
  on the loaded table is a function of its own (\<open>classifiers_of_table\<close> and the like), so
  that it can be stated for a document.
\<close>

definition classifiers_of_table :: "toml_doc \<Rightarrow> py_error + toml" where
  "classifiers_of_table t =
     ebind (is_poetry_toml t) (\<lambda>poetry.
     ebind (if poetry then get_poetry_classifiers t else Inr (TArray [])) (\<lambda>classifiers.
     ebind (or_else (is_setuptools_toml t) (is_flit_toml t)) (\<lambda>setuptools_or_flit.
     if setuptools_or_flit then get_setuptools_flit_classifiers t
     else Inr classifiers)))"

definition get_pyproject_toml_classifiers :: "env \<Rightarrow> toml prog" where
  "get_pyproject_toml_classifiers ev =
     pbind (load_toml ev) (\<lambda>table. lift (ebind (loaded table) classifiers_of_table))"

definition python_requires_of_table :: "toml_doc \<Rightarrow> py_error + toml option" where
  "python_requires_of_table t =
     ebind (is_poetry_toml t) (\<lambda>poetry.
     ebind (if poetry then get_poetry_python_requires t else Inr None) (\<lambda>python_requires.
     ebind (or_else (is_setuptools_toml t) (is_flit_toml t)) (\<lambda>setuptools_or_flit.
     if setuptools_or_flit then get_setuptools_flit_python_requires t
     else Inr python_requires)))"

definition get_pyproject_toml_python_requires :: "env \<Rightarrow> toml option prog" where
  "get_pyproject_toml_python_requires ev =
     pbind (load_toml ev) (\<lambda>table. lift (ebind (loaded table) python_requires_of_table))"

text \<open>
  What an update returns: \<^verbatim>\<open>None\<close>, the empty list, or the lines of the serialised
  document.
\<close>

datatype file_lines = EmptyLines | Dumped toml_doc

text \<open>
  The setter for poetry changes the table in place, so the second pair of detectors and the
  setter for setuptools and flit see the table as the first setter left it.
\<close>

definition update_classifiers_of_table :: "toml_doc \<Rightarrow> toml \<Rightarrow> py_error + file_lines option" where
  "update_classifiers_of_table t new_value =
     ebind (is_poetry_toml t) (\<lambda>poetry.
     ebind (if poetry
            then ebind (set_poetry_classifiers t new_value) (\<lambda>t'. Inr (t', Some (Dumped t')))
            else Inr (t, None)) (\<lambda>(t', updated_table).
     ebind (or_else (is_setuptools_toml t') (is_flit_toml t')) (\<lambda>setuptools_or_flit.
     if setuptools_or_flit
     then ebind (set_setuptools_flit_classifiers t' new_value) (\<lambda>t''. Inr (Some (Dumped t'')))
     else Inr updated_table)))"

definition update_pyproject_toml_classifiers :: "env \<Rightarrow> toml \<Rightarrow> file_lines option prog" where
  "update_pyproject_toml_classifiers ev new_value =
     pbind (load_toml ev) (\<lambda>table. lift (
       ebind (loaded table) (\<lambda>t. update_classifiers_of_table t new_value)))"

definition update_python_requires_of_table ::
  "toml_doc \<Rightarrow> toml \<Rightarrow> py_error + file_lines option" where
  "update_python_requires_of_table t new_value =
     ebind (is_poetry_toml t) (\<lambda>poetry.
     ebind (if poetry
            then ebind (set_poetry_python_requires t new_value)
                   (\<lambda>t'. Inr (t', Some (Dumped t')))
            else Inr (t, Some EmptyLines)) (\<lambda>(t', updated_table).
     ebind (or_else (is_setuptools_toml t') (is_flit_toml t')) (\<lambda>setuptools_or_flit.
     if setuptools_or_flit
     then ebind (set_setuptools_flit_python_requires t' new_value)
            (\<lambda>t''. Inr (Some (Dumped t'')))
     else Inr updated_table)))"

definition update_pyproject_python_requires :: "env \<Rightarrow> toml \<Rightarrow> file_lines option prog" where
  "update_pyproject_python_requires ev new_value =
     pbind (load_toml ev) (\<lambda>table. lift (
       ebind (loaded table) (\<lambda>t. update_python_requires_of_table t new_value)))"

abbreviation NOT_AN_ARRAY :: string where
  "NOT_AN_ARRAY \<equiv> ''The value specified for classifiers is not an array''"

abbreviation NOT_A_STRING :: string where
  "NOT_A_STRING \<equiv> ''The value specified for python dependency is not a string''"

fun array_items :: "toml \<Rightarrow> toml list" where
  "array_items (TArray xs) = xs"
| "array_items v = []"

fun string_text :: "toml \<Rightarrow> string" where
  "string_text (TString ty s) = s"
| "string_text v = []"

definition get_supported_python_versions :: "env \<Rightarrow> version list prog" where
  "get_supported_python_versions ev =
     pbind (get_pyproject_toml_classifiers ev) (\<lambda>classifiers.
     if \<not> py_truthy classifiers then ret []
     else if \<not> is_list classifiers then pbind (warn NOT_AN_ARRAY) (\<lambda>_. ret [])
     else lift (get_versions_from_classifiers ev (array_items classifiers)))"

definition get_python_requires :: "env \<Rightarrow> version list option prog" where
  "get_python_requires ev =
     pbind (get_pyproject_toml_python_requires ev) (\<lambda>python_requires.
     if (case python_requires of None \<Rightarrow> True | Some v \<Rightarrow> \<not> py_truthy v \<or> \<not> is_str v)
     then pbind (warn NOT_A_STRING) (\<lambda>_. ret None)
     else (\<lambda>w. (snd (parse_python_requires ev (string_text (the python_requires))),
                w\<lparr>stderr := stderr w @ fst (parse_python_requires ev (string_text (the python_requires)))\<rparr>)))"

definition update_supported_python_versions ::
  "env \<Rightarrow> version list \<Rightarrow> file_lines option prog" where
  "update_supported_python_versions ev new_versions =
     pbind (get_pyproject_toml_classifiers ev) (\<lambda>classifiers.
     if \<not> is_list classifiers \<or> \<not> py_truthy classifiers
     then pbind (warn NOT_AN_ARRAY) (\<lambda>_. ret None)
     else
       pbind (lift (update_classifiers ev (array_items classifiers) new_versions))
         (\<lambda>new_classifiers.
       update_pyproject_toml_classifiers ev (TArray (map (TString SLB) new_classifiers))))"

definition comma_style :: "toml \<Rightarrow> py_error + string" where
  "comma_style python_requires =
     ebind (py_in '','' python_requires) (\<lambda>has_comma.
     ebind (if has_comma
            then ebind (py_in '', '' python_requires) (\<lambda>has_comma_space. Inr (\<not> has_comma_space))
            else Inr False) (\<lambda>tight.
     Inr (if tight then '','' else '', '')))"

definition space_style :: "toml \<Rightarrow> py_error + string" where
  "space_style python_requires =
     ebind (or_else (py_in ''> '' python_requires) (py_in ''= '' python_requires)) (\<lambda>spaced.
     Inr (if spaced then '' '' else []))"

definition update_python_requires :: "env \<Rightarrow> version list \<Rightarrow> file_lines option prog" where
  "update_python_requires ev new_versions =
     pbind (get_pyproject_toml_python_requires ev) (\<lambda>python_requires.
     case python_requires of
       None \<Rightarrow> ret None
     | Some v \<Rightarrow>
         pbind (lift (comma_style v)) (\<lambda>comma.
         pbind (lift (space_style v)) (\<lambda>space.
         pbind (lift (compute_python_requires (known_versions ev) new_versions comma space))
           (\<lambda>new_requires.
         pbind seek_start (\<lambda>_.
         update_pyproject_python_requires ev (TString SLB new_requires))))))"

section \<open>Fields of a document\<close>

text \<open>
  The value at a path of keys, if every key is there; and whether everything met on the
  way down a path is a table (what lies at the end of the path may be anything).
\<close>

fun get_field :: "toml \<Rightarrow> string list \<Rightarrow> toml option" where
  "get_field v [] = Some v"
| "get_field (TTable kvs) (k # ks) =
     (case map_of kvs k of None \<Rightarrow> None | Some v \<Rightarrow> get_field v ks)"
| "get_field v (k # ks) = None"

fun tables_along :: "toml \<Rightarrow> string list \<Rightarrow> bool" where
  "tables_along v [] = True"
| "tables_along (TTable kvs) (k # ks) =
     (case map_of kvs k of None \<Rightarrow> True | Some v \<Rightarrow> tables_along v ks)"
| "tables_along v (k # ks) = False"

text \<open>
  The field that governs a document which the poetry detector answers with \<open>p\<close> and the
  setuptools-or-flit test with \<open>s\<close>: the one under \<^verbatim>\<open>project\<close> when \<open>s\<close> holds,
  else the one under \<^verbatim>\<open>tool.poetry\<close> when \<open>p\<close> holds, else none. The document is
  well shaped when the paths that the accepted conventions read lead through tables.
\<close>

definition declared_classifiers :: "bool \<Rightarrow> bool \<Rightarrow> toml_doc \<Rightarrow> toml option" where
  "declared_classifiers p s t =
     (if s then get_field (TTable t) [PROJECT, CLASSIFIERS]
      else if p then get_field (TTable t) [TOOL, POETRY, CLASSIFIERS]
      else None)"

definition declared_python_requires :: "bool \<Rightarrow> bool \<Rightarrow> toml_doc \<Rightarrow> toml option" where
  "declared_python_requires p s t =
     (if s then get_field (TTable t) [PROJECT, PYTHON_REQUIRES]
      else if p then get_field (TTable t) [TOOL, POETRY, DEPENDENCIES, PYTHON]
      else None)"

definition classifiers_shaped :: "bool \<Rightarrow> bool \<Rightarrow> toml_doc \<Rightarrow> bool" where
  "classifiers_shaped p s t =
     ((p \<longrightarrow> tables_along (TTable t) [TOOL, POETRY, CLASSIFIERS]) \<and>
      (s \<longrightarrow> tables_along (TTable t) [PROJECT, CLASSIFIERS]))"

definition python_requires_shaped :: "bool \<Rightarrow> bool \<Rightarrow> toml_doc \<Rightarrow> bool" where
  "python_requires_shaped p s t =
     ((p \<longrightarrow> tables_along (TTable t) [TOOL, POETRY, DEPENDENCIES, PYTHON]) \<and>
      (s \<longrightarrow> tables_along (TTable t) [PROJECT, PYTHON_REQUIRES]))"

section \<open>A file on disk and a stream for the examples\<close>

text \<open>
  An environment in which the file \<^verbatim>\<open>pyproject.toml\<close> holds \<open>text\<close>, which the parser
  reads as the document \<open>t\<close>; the parser reads the empty text as the empty document and
  rejects any other text. The functions of \<^verbatim>\<open>setup_py.py\<close> find nothing.
\<close>

definition sample_env :: "string \<Rightarrow> toml_doc \<Rightarrow> version list \<Rightarrow> env" where
  "sample_env text t known =
     \<lparr>fs = (\<lambda>p. if p = ''pyproject.toml'' then Some text else None),
      toml_parse = (\<lambda>s. if s = text then Inr t else if s = [] then Inr [] else Inl TOMLError),
      known_versions = known,
      parse_python_requires = (\<lambda>s. ([], Inr None)),
      get_versions_from_classifiers = (\<lambda>xs. Inr []),
      update_classifiers = (\<lambda>xs vs. Inr [])\<rparr>"

text \<open>The text of the example file stands for itself: the parser is a parameter.\<close>

definition sample_text :: string where
  "sample_text = ''(the text of pyproject.toml)''"


definition on_disk :: world where
  "on_disk = \<lparr>fobj = Filename ''pyproject.toml'', stderr = []\<rparr>"


text \<open>Python 2.0 to 2.7 and 3.0 to 3.\<open>n\<close>, in ascending order.\<close>

definition python_versions :: "nat \<Rightarrow> version list" where
  "python_versions n = map (Pair 2) [0..<8] @ map (Pair 3) [0..<Suc n]"

section \<open>The detector as the specification describes it\<close>

text \<open>
  The three checks of the specification for a convention with keyword \<open>k\<close>, read off the
  document and not off the code: a sub-table named \<open>k\<close> is present under the tool
  namespace; the build backend of the build system is a string that contains \<open>k\<close>; an
  entry of the build requirements of the build system is a string that contains \<open>k\<close>.
\<close>

fun is_table :: "toml \<Rightarrow> bool" where
  "is_table (TTable kvs) = True"
| "is_table v = False"

fun entry_has_marker :: "string \<Rightarrow> toml \<Rightarrow> bool" where
  "entry_has_marker k (TString ty s) = str_contains k s"
| "entry_has_marker k v = False"

definition subtable_present :: "string \<Rightarrow> toml_doc \<Rightarrow> bool" where
  "subtable_present k t =
     (case get_field (TTable t) [TOOL, k] of None \<Rightarrow> False | Some v \<Rightarrow> is_table v)"

definition backend_marker :: "string \<Rightarrow> toml_doc \<Rightarrow> bool" where
  "backend_marker k t =
     (case get_field (TTable t) [BUILD_SYSTEM, BUILD_BACKEND] of
        None \<Rightarrow> False
      | Some v \<Rightarrow> entry_has_marker k v)"

definition requires_marker :: "string \<Rightarrow> toml_doc \<Rightarrow> bool" where
  "requires_marker k t =
     (case get_field (TTable t) [BUILD_SYSTEM, REQUIRES] of
        None \<Rightarrow> False
      | Some v \<Rightarrow> is_list v \<and> list_ex (entry_has_marker k) (array_items v))"

text \<open>At least one of the three checks succeeds.\<close>

definition spec_detects :: "string \<Rightarrow> toml_doc \<Rightarrow> bool" where
  "spec_detects k t = (subtable_present k t \<or> backend_marker k t \<or> requires_marker k t)"

text \<open>
  A document has the shape the detector for \<open>k\<close> expects when \<^verbatim>\<open>tool\<close>, if present, is
  a table whose entry \<open>k\<close>, if present, is a table, and \<^verbatim>\<open>build-system\<close>, if present,
  is a table whose \<^verbatim>\<open>build-backend\<close>, if present, is a string and whose
  \<^verbatim>\<open>requires\<close>, if present, is an array of strings.
\<close>

definition detector_shaped :: "string \<Rightarrow> toml_doc \<Rightarrow> bool" where
  "detector_shaped k t =
     ((case map_of t TOOL of
         None \<Rightarrow> True
       | Some tool \<Rightarrow>
           is_table tool \<and>
           (case get_field tool [k] of None \<Rightarrow> True | Some v \<Rightarrow> is_table v)) \<and>
      (case map_of t BUILD_SYSTEM of
         None \<Rightarrow> True
       | Some bs \<Rightarrow>
           is_table bs \<and>
           (case get_field bs [BUILD_BACKEND] of None \<Rightarrow> True | Some v \<Rightarrow> is_str v) \<and>
           (case get_field bs [REQUIRES] of
              None \<Rightarrow> True
            | Some v \<Rightarrow> is_list v \<and> list_all is_str (array_items v))))"

text \<open>A document whose \<^verbatim>\<open>tool\<close> key holds a string instead of a table.\<close>

definition doc_tool_string :: toml_doc where
  "doc_tool_string = [(TOOL, TString SLB ''poetry-flit'')]"

text \<open>A document whose build requirements are a table instead of an array.\<close>

definition doc_requires_table :: toml_doc where
  "doc_requires_table =
     [(BUILD_SYSTEM, TTable [(REQUIRES, TTable [(''poetry-core'', TString SLB ''1.0'')])])]"

text \<open>A document with a project table and a number among the build requirements.\<close>

definition doc_requires_number :: toml_doc where
  "doc_requires_number =
     [(PROJECT, TTable [(''name'', TString SLL ''foo'')]),
      (BUILD_SYSTEM, TTable [(REQUIRES, TArray [TInteger 5, TString SLB ''setuptools''])])]"

text \<open>A document with only a build backend that names setuptools, and a \<^verbatim>\<open>tool\<close> key
  that holds a number instead of a table.\<close>

definition doc_tool_number :: toml_doc where
  "doc_tool_number =
     [(TOOL, TInteger 5),
      (BUILD_SYSTEM, TTable [(BUILD_BACKEND, TString SLB ''setuptools.build_meta'')])]"

text \<open>A document whose tool namespace has a poetry and a setuptools sub-table.\<close>

definition doc_poetry_and_setuptools :: toml_doc where
  "doc_poetry_and_setuptools = [(TOOL, TTable [(POETRY, TTable []), (SETUPTOOLS, TTable [])])]"

text \<open>The document of the flit tests: a project table and a flit build system.\<close>

definition flit_build_system :: "string \<times> toml" where
  "flit_build_system =
     (BUILD_SYSTEM, TTable
        [(REQUIRES, TArray [TString SLB ''flit_core >=3.2,<4'']),
         (BUILD_BACKEND, TString SLB ''flit_core.buildapi'')])"

definition flit_doc :: "(string \<times> toml) list \<Rightarrow> toml_doc" where
  "flit_doc entries =
     [(PROJECT, TTable ((''name'', TString SLL ''foo'') # entries)), flit_build_system]"

text \<open>
  A document that declares the python requirement for poetry and for setuptools: a poetry
  sub-table under the tool namespace and a setuptools build system.
\<close>

definition doc_dual :: "toml \<Rightarrow> toml \<Rightarrow> toml_doc" where
  "doc_dual python requires_python =
     [(TOOL, TTable [(POETRY, TTable [(DEPENDENCIES, TTable [(PYTHON, python)])])]),
      (PROJECT, TTable [(''name'', TString SLL ''foo''), (PYTHON_REQUIRES, requires_python)]),
      (BUILD_SYSTEM, TTable
         [(REQUIRES, TArray [TString SLB ''setuptools'']),
          (BUILD_BACKEND, TString SLB ''setuptools.build_meta'')])]"

section \<open>Properties of the schema detectors\<close>

lemma any_in_strings:
  "list_all is_str xs \<Longrightarrow> any_in k xs = Inr (list_ex (entry_has_marker k) xs)"
proof (induction xs)
  case Nil
  then show ?case by simp
next
  case (Cons x xs)
  then obtain ty s where "x = TString ty s" by (cases x) auto
  with Cons show ?case by (simp add: or_else_def ebind_def)
qed

lemma tool_part:
  assumes "detector_shaped k t"
  shows "py_in k (doc_get t TOOL (TTable [])) = Inr (subtable_present k t)"
proof (cases "map_of t TOOL")
  case None
  then show ?thesis by (simp add: doc_get_def subtable_present_def has_key_def)
next
  case (Some tool)
  with assms obtain tkvs where tl: "tool = TTable tkvs"
    by (cases tool) (auto simp: detector_shaped_def)
  with assms Some show ?thesis
    by (auto simp: doc_get_def subtable_present_def has_key_def detector_shaped_def
        split: option.splits)
qed

lemma build_system_absent:
  assumes "map_of t BUILD_SYSTEM = None"
  shows "\<not> has_key t BUILD_SYSTEM" "\<not> backend_marker k t" "\<not> requires_marker k t"
  using assms by (simp_all add: has_key_def backend_marker_def requires_marker_def)

lemma build_system_part:
  assumes "detector_shaped k t" and "map_of t BUILD_SYSTEM = Some bs" and "k \<noteq> []"
  shows "has_key t BUILD_SYSTEM" "doc_getitem t BUILD_SYSTEM = Inr bs"
    "\<exists>b. item_get bs BUILD_BACKEND (TString SLB []) = Inr b \<and>
         py_in k b = Inr (backend_marker k t)"
    "\<exists>r xs. item_get bs REQUIRES (TArray []) = Inr r \<and> py_iter r = Inr xs \<and>
         any_in k xs = Inr (requires_marker k t)"
proof -
  from assms obtain bkvs where bs: "bs = TTable bkvs"
    by (cases bs) (auto simp: detector_shaped_def)
  show "has_key t BUILD_SYSTEM" "doc_getitem t BUILD_SYSTEM = Inr bs"
    using assms(2) by (simp_all add: has_key_def doc_getitem_def)
  show "\<exists>b. item_get bs BUILD_BACKEND (TString SLB []) = Inr b \<and>
         py_in k b = Inr (backend_marker k t)"
  proof (cases "map_of bkvs BUILD_BACKEND")
    case None
    with assms(2,3) bs show ?thesis
      by (cases k) (simp_all add: doc_get_def backend_marker_def)
  next
    case (Some b)
    with assms bs obtain ty s where "b = TString ty s"
      by (cases b) (auto simp: detector_shaped_def)
    with Some assms(2) bs show ?thesis
      by (simp add: doc_get_def backend_marker_def)
  qed
  show "\<exists>r xs. item_get bs REQUIRES (TArray []) = Inr r \<and> py_iter r = Inr xs \<and>
         any_in k xs = Inr (requires_marker k t)"
  proof (cases "map_of bkvs REQUIRES")
    case None
    with assms(2) bs show ?thesis
      by (simp add: doc_get_def requires_marker_def)
  next
    case (Some r)
    with assms bs obtain xs where r: "r = TArray xs" and "list_all is_str xs"
      by (cases r) (auto simp: detector_shaped_def)
    with Some assms(2) bs show ?thesis
      by (simp add: doc_get_def requires_marker_def any_in_strings)
  qed
qed

lemma is_poetry_toml_spec:
  assumes "detector_shaped POETRY t"
  shows "is_poetry_toml t = Inr (spec_detects POETRY t)"
proof (cases "map_of t BUILD_SYSTEM")
  case None
  show ?thesis
    using tool_part [OF assms] build_system_absent [OF None]
    by (simp add: is_poetry_toml_def spec_detects_def ebind_def)
next
  case (Some bs)
  from build_system_part [OF assms Some] tool_part [OF assms] show ?thesis
    by (auto simp: is_poetry_toml_def spec_detects_def ebind_def)
qed

lemma is_flit_toml_spec:
  assumes "detector_shaped FLIT t"
  shows "is_flit_toml t = Inr (spec_detects FLIT t)"
proof (cases "map_of t BUILD_SYSTEM")
  case None
  show ?thesis
    using tool_part [OF assms] build_system_absent [OF None]
    by (simp add: is_flit_toml_def spec_detects_def ebind_def)
next
  case (Some bs)
  from build_system_part [OF assms Some] tool_part [OF assms] show ?thesis
    by (auto simp: is_flit_toml_def spec_detects_def ebind_def)
qed

lemma is_setuptools_toml_spec:
  assumes "detector_shaped SETUPTOOLS t"
  shows "is_setuptools_toml t = Inr (spec_detects SETUPTOOLS t)"
proof (cases "map_of t BUILD_SYSTEM")
  case None
  show ?thesis
    using tool_part [OF assms] build_system_absent [OF None]
    by (simp add: is_setuptools_toml_def spec_detects_def ebind_def)
next
  case (Some bs)
  from build_system_part [OF assms Some] tool_part [OF assms] show ?thesis
    by (auto simp: is_setuptools_toml_def spec_detects_def ebind_def)
qed

text \<open>
  C2, as stated: a detector returns true exactly when one of the three checks succeeds. It
  fails on \<open>doc_tool_string\<close>: no sub-table is under \<^verbatim>\<open>tool\<close> and there is no build
  system, yet \<open>is_poetry_toml\<close> returns true, because the keyword occurs in the string
  that \<^verbatim>\<open>tool\<close> holds. It fails on \<open>doc_requires_table\<close>, where the build requirements
  are no list and the keyword occurs in a key of the table. And on \<open>doc_tool_number\<close> the
  detector does not return at all.
\<close>

theorem detector_checks_counterexample:
  "is_poetry_toml doc_tool_string = Inr True \<and>
   \<not> subtable_present POETRY doc_tool_string \<and>
   \<not> backend_marker POETRY doc_tool_string \<and>
   \<not> requires_marker POETRY doc_tool_string \<and>
   is_poetry_toml doc_requires_table = Inr True \<and>
   \<not> subtable_present POETRY doc_requires_table \<and>
   \<not> backend_marker POETRY doc_requires_table \<and>
   \<not> requires_marker POETRY doc_requires_table \<and>
   is_poetry_toml doc_tool_number = Inl TypeError"
  by (simp add: doc_tool_string_def doc_requires_table_def doc_tool_number_def
      is_poetry_toml_def ebind_def or_else_def doc_get_def doc_getitem_def has_key_def
      subtable_present_def backend_marker_def requires_marker_def)

text \<open>
  C2, amended: on every document that has the shape the detector expects, each of
  \<open>is_poetry_toml\<close>, \<open>is_setuptools_toml\<close> and \<open>is_flit_toml\<close> returns, and returns
  true exactly when at least one of the three checks succeeds: the sub-table of the
  convention under the tool namespace, the marker in the build backend, the marker in an
  entry of the build requirements.
\<close>

theorem detectors_follow_checks:
  "(detector_shaped POETRY t \<longrightarrow>
      is_poetry_toml t =
        Inr (subtable_present POETRY t \<or> backend_marker POETRY t \<or> requires_marker POETRY t)) \<and>
   (detector_shaped SETUPTOOLS t \<longrightarrow>
      is_setuptools_toml t =
        Inr (subtable_present SETUPTOOLS t \<or> backend_marker SETUPTOOLS t \<or>
             requires_marker SETUPTOOLS t)) \<and>
   (detector_shaped FLIT t \<longrightarrow>
      is_flit_toml t =
        Inr (subtable_present FLIT t \<or> backend_marker FLIT t \<or> requires_marker FLIT t))"
  using is_poetry_toml_spec is_setuptools_toml_spec is_flit_toml_spec
  by (simp add: spec_detects_def)

lemma flit_doc_shaped:
  "detector_shaped POETRY (flit_doc [])" "detector_shaped SETUPTOOLS (flit_doc [])"
  "detector_shaped FLIT (flit_doc [])"
  by (simp_all add: detector_shaped_def flit_doc_def flit_build_system_def)

lemma flit_doc_checks:
  "\<not> subtable_present POETRY (flit_doc [])" "\<not> backend_marker POETRY (flit_doc [])"
  "\<not> requires_marker POETRY (flit_doc [])"
  "\<not> subtable_present SETUPTOOLS (flit_doc [])" "\<not> backend_marker SETUPTOOLS (flit_doc [])"
  "\<not> requires_marker SETUPTOOLS (flit_doc [])"
  "\<not> subtable_present FLIT (flit_doc [])" "backend_marker FLIT (flit_doc [])"
  "requires_marker FLIT (flit_doc [])"
  by (simp_all add: subtable_present_def backend_marker_def requires_marker_def flit_doc_def
      flit_build_system_def)

theorem detectors_follow_checks_witness:
  "detector_shaped POETRY (flit_doc []) \<and> is_poetry_toml (flit_doc []) = Inr False \<and>
   detector_shaped SETUPTOOLS (flit_doc []) \<and> is_setuptools_toml (flit_doc []) = Inr False \<and>
   detector_shaped FLIT (flit_doc []) \<and> is_flit_toml (flit_doc []) = Inr True"
  using detectors_follow_checks [of "flit_doc []"] flit_doc_shaped flit_doc_checks
  by simp

text \<open>
  C3: the detectors are independent predicates. On a document whose tool namespace has a
  poetry and a setuptools sub-table, \<open>is_poetry_toml\<close> and \<open>is_setuptools_toml\<close> both
  return true; and no answer of one detector excludes an answer of another: every
  combination of three answers is the result of the three detectors on some document.
\<close>

theorem detectors_independent:
  "is_poetry_toml doc_poetry_and_setuptools = Inr True \<and>
   is_setuptools_toml doc_poetry_and_setuptools = Inr True \<and>
   (\<forall>a b c. \<exists>t. is_poetry_toml t = Inr a \<and> is_setuptools_toml t = Inr b \<and>
      is_flit_toml t = Inr c)"
proof (intro conjI allI)
  fix a b c
  let ?t = "[(TOOL, TTable ((if a then [(POETRY, TTable [])] else [])
              @ (if b then [(SETUPTOOLS, TTable [])] else [])
              @ (if c then [(FLIT, TTable [])] else [])))]"
  have "is_poetry_toml ?t = Inr a \<and> is_setuptools_toml ?t = Inr b \<and> is_flit_toml ?t = Inr c"
    by (simp add: is_poetry_toml_def is_setuptools_toml_def is_flit_toml_def ebind_def
        has_key_def doc_get_def)
  then show "\<exists>t. is_poetry_toml t = Inr a \<and> is_setuptools_toml t = Inr b \<and> is_flit_toml t = Inr c"
    by blast
qed (simp_all add: doc_poetry_and_setuptools_def is_poetry_toml_def is_setuptools_toml_def
    ebind_def has_key_def doc_get_def)


section \<open>What the helpers read from a document\<close>

lemma py_in_table [simp]: "py_in k (TTable kvs) = Inr (map_of kvs k \<noteq> None)"
  by (simp add: has_key_def)

lemma setuptools_flit_classifiers_field:
  assumes "tables_along (TTable t) [PROJECT, CLASSIFIERS]"
  shows "get_setuptools_flit_classifiers t =
    Inr (case get_field (TTable t) [PROJECT, CLASSIFIERS] of None \<Rightarrow> TArray [] | Some v \<Rightarrow> v)"
proof (cases "map_of t PROJECT")
  case None
  then show ?thesis by (simp add: get_setuptools_flit_classifiers_def has_key_def)
next
  case (Some pr)
  with assms obtain kvs where "pr = TTable kvs" by (cases pr) auto
  with Some show ?thesis
    by (auto simp: get_setuptools_flit_classifiers_def has_key_def doc_getitem_def ebind_def
        split: option.splits)
qed

lemma setuptools_flit_python_requires_field:
  assumes "tables_along (TTable t) [PROJECT, PYTHON_REQUIRES]"
  shows "get_setuptools_flit_python_requires t = Inr (get_field (TTable t) [PROJECT, PYTHON_REQUIRES])"
proof (cases "map_of t PROJECT")
  case None
  then show ?thesis by (simp add: get_setuptools_flit_python_requires_def has_key_def)
next
  case (Some pr)
  with assms obtain kvs where "pr = TTable kvs" by (cases pr) auto
  with Some show ?thesis
    by (auto simp: get_setuptools_flit_python_requires_def has_key_def doc_getitem_def ebind_def
        split: option.splits)
qed

lemma tables_along_step:
  "tables_along (TTable t) (k # ks) \<Longrightarrow> map_of t k = Some v \<Longrightarrow> ks \<noteq> [] \<Longrightarrow>
     \<exists>kvs. v = TTable kvs \<and> tables_along (TTable kvs) ks"
  by (cases v; cases ks) auto

lemma poetry_classifiers_field:
  assumes "tables_along (TTable t) [TOOL, POETRY, CLASSIFIERS]"
  shows "get_poetry_classifiers t =
    Inr (case get_field (TTable t) [TOOL, POETRY, CLASSIFIERS] of None \<Rightarrow> TArray [] | Some v \<Rightarrow> v)"
proof (cases "map_of t TOOL")
  case None
  then show ?thesis by (simp add: get_poetry_classifiers_def has_key_def)
next
  case (Some tl)
  from tables_along_step [OF assms Some] obtain tkvs
    where tl: "tl = TTable tkvs" and ta: "tables_along (TTable tkvs) [POETRY, CLASSIFIERS]"
    by auto
  show ?thesis
  proof (cases "map_of tkvs POETRY")
    case None
    with Some tl show ?thesis
      by (simp add: get_poetry_classifiers_def has_key_def doc_getitem_def ebind_def)
  next
    case po: (Some pv)
    from tables_along_step [OF ta po] obtain pkvs where "pv = TTable pkvs" by auto
    with Some tl po show ?thesis
      by (auto simp: get_poetry_classifiers_def has_key_def doc_getitem_def ebind_def
          split: option.splits)
  qed
qed

lemma poetry_python_requires_field:
  assumes "tables_along (TTable t) [TOOL, POETRY, DEPENDENCIES, PYTHON]"
  shows "get_poetry_python_requires t =
    Inr (get_field (TTable t) [TOOL, POETRY, DEPENDENCIES, PYTHON])"
proof (cases "map_of t TOOL")
  case None
  then show ?thesis by (simp add: get_poetry_python_requires_def has_key_def)
next
  case (Some tl)
  from tables_along_step [OF assms Some] obtain tkvs
    where tl: "tl = TTable tkvs"
      and ta: "tables_along (TTable tkvs) [POETRY, DEPENDENCIES, PYTHON]"
    by auto
  show ?thesis
  proof (cases "map_of tkvs POETRY")
    case None
    with Some tl show ?thesis
      by (simp add: get_poetry_python_requires_def has_key_def doc_getitem_def ebind_def)
  next
    case po: (Some pv)
    from tables_along_step [OF ta po] obtain pkvs
      where pv: "pv = TTable pkvs" and tp: "tables_along (TTable pkvs) [DEPENDENCIES, PYTHON]"
      by auto
    show ?thesis
    proof (cases "map_of pkvs DEPENDENCIES")
      case None
      with Some tl po pv show ?thesis
        by (simp add: get_poetry_python_requires_def has_key_def doc_getitem_def ebind_def)
    next
      case de: (Some dv)
      from tables_along_step [OF tp de] obtain dkvs where "dv = TTable dkvs" by auto
      with Some tl po pv de show ?thesis
        by (auto simp: get_poetry_python_requires_def has_key_def doc_getitem_def ebind_def
            split: option.splits)
    qed
  qed
qed

lemma classifiers_of_table_declared:
  assumes "is_poetry_toml t = Inr p" "or_else (is_setuptools_toml t) (is_flit_toml t) = Inr s"
    and "classifiers_shaped p s t"
  shows "classifiers_of_table t =
    Inr (case declared_classifiers p s t of None \<Rightarrow> TArray [] | Some v \<Rightarrow> v)"
  using assms
  by (simp add: classifiers_of_table_def classifiers_shaped_def declared_classifiers_def
      ebind_def poetry_classifiers_field setuptools_flit_classifiers_field del: get_field.simps tables_along.simps)

lemma python_requires_of_table_declared:
  assumes "is_poetry_toml t = Inr p" "or_else (is_setuptools_toml t) (is_flit_toml t) = Inr s"
    and "python_requires_shaped p s t"
  shows "python_requires_of_table t = Inr (declared_python_requires p s t)"
  using assms
  by (simp add: python_requires_of_table_def python_requires_shaped_def declared_python_requires_def
      ebind_def poetry_python_requires_field setuptools_flit_python_requires_field del: get_field.simps tables_along.simps)

section \<open>The public operations on a loaded document\<close>

lemma get_classifiers_loaded:
  "load_toml ev w = (Inr (Some t), w') \<Longrightarrow>
     get_pyproject_toml_classifiers ev w = (classifiers_of_table t, w')"
  by (simp add: get_pyproject_toml_classifiers_def pbind_def lift_def loaded_def ebind_def)

lemma get_python_requires_loaded:
  "load_toml ev w = (Inr (Some t), w') \<Longrightarrow>
     get_pyproject_toml_python_requires ev w = (python_requires_of_table t, w')"
  by (simp add: get_pyproject_toml_python_requires_def pbind_def lift_def loaded_def ebind_def)


lemma get_supported_python_versions_loaded:
  assumes "load_toml ev w = (Inr (Some t), w')" and "classifiers_of_table t = Inr c"
  shows "get_supported_python_versions ev w =
    (if \<not> py_truthy c then (Inr [], w')
     else if \<not> is_list c then (Inr [], w'\<lparr>stderr := stderr w' @ [NOT_AN_ARRAY]\<rparr>)
     else (get_versions_from_classifiers ev (array_items c), w'))"
  using assms
  by (simp add: get_supported_python_versions_def get_classifiers_loaded pbind_def ret_def
      warn_def lift_def)

lemma update_supported_python_versions_rejected:
  assumes "load_toml ev w = (Inr (Some t), w')" and "classifiers_of_table t = Inr c"
    and "\<not> is_list c \<or> \<not> py_truthy c"
  shows "update_supported_python_versions ev new_versions w =
    (Inr None, w'\<lparr>stderr := stderr w' @ [NOT_AN_ARRAY]\<rparr>)"
  using assms
  by (auto simp: update_supported_python_versions_def get_classifiers_loaded pbind_def ret_def
      warn_def)

lemma get_python_requires_loaded_result:
  assumes "load_toml ev w = (Inr (Some t), w')" and "python_requires_of_table t = Inr r"
  shows "get_python_requires ev w =
    (if (case r of None \<Rightarrow> True | Some v \<Rightarrow> \<not> py_truthy v \<or> \<not> is_str v)
     then (Inr None, w'\<lparr>stderr := stderr w' @ [NOT_A_STRING]\<rparr>)
     else (snd (parse_python_requires ev (string_text (the r))),
           w'\<lparr>stderr := stderr w' @ fst (parse_python_requires ev (string_text (the r)))\<rparr>))"
  using assms
  by (simp add: get_python_requires_def get_python_requires_loaded pbind_def ret_def warn_def)

lemma update_python_requires_absent:
  assumes "load_toml ev w = (Inr (Some t), w')" and "python_requires_of_table t = Inr None"
  shows "update_python_requires ev new_versions w = (Inr None, w')"
  using assms
  by (simp add: update_python_requires_def get_python_requires_loaded pbind_def ret_def)

text \<open>
  C1, amended: take a document that could be loaded, on which the schema detectors return an
  answer, and in which the queried field is absent where the accepted conventions keep it,
  the paths to it leading through tables. Then \<open>get_supported_python_versions\<close> returns
  the empty list and \<open>update_python_requires\<close> returns none, both without a diagnostic;
  \<open>update_supported_python_versions\<close> and \<open>get_python_requires\<close> return none and each
  writes one diagnostic to the error stream.
\<close>

theorem absent_field_results:
  assumes "load_toml ev w = (Inr (Some t), w')"
    and "is_poetry_toml t = Inr p"
    and "or_else (is_setuptools_toml t) (is_flit_toml t) = Inr s"
  shows "(classifiers_shaped p s t \<and> declared_classifiers p s t = None \<longrightarrow>
            get_supported_python_versions ev w = (Inr [], w') \<and>
            update_supported_python_versions ev new_versions w =
              (Inr None, w'\<lparr>stderr := stderr w' @ [NOT_AN_ARRAY]\<rparr>)) \<and>
         (python_requires_shaped p s t \<and> declared_python_requires p s t = None \<longrightarrow>
            update_python_requires ev new_versions w = (Inr None, w') \<and>
            get_python_requires ev w =
              (Inr None, w'\<lparr>stderr := stderr w' @ [NOT_A_STRING]\<rparr>))"
proof (intro conjI impI)
  assume a: "classifiers_shaped p s t \<and> declared_classifiers p s t = None"
  then have c: "classifiers_of_table t = Inr (TArray [])"
    using classifiers_of_table_declared [OF assms(2,3)] by simp
  show "get_supported_python_versions ev w = (Inr [], w')"
    using get_supported_python_versions_loaded [OF assms(1) c] by simp
  show "update_supported_python_versions ev new_versions w =
      (Inr None, w'\<lparr>stderr := stderr w' @ [NOT_AN_ARRAY]\<rparr>)"
    using update_supported_python_versions_rejected [OF assms(1) c] by simp
next
  assume a: "python_requires_shaped p s t \<and> declared_python_requires p s t = None"
  then have r: "python_requires_of_table t = Inr None"
    using python_requires_of_table_declared [OF assms(2,3)] by simp
  show "update_python_requires ev new_versions w = (Inr None, w')"
    using update_python_requires_absent [OF assms(1) r] .
  show "get_python_requires ev w = (Inr None, w'\<lparr>stderr := stderr w' @ [NOT_A_STRING]\<rparr>)"
    using get_python_requires_loaded_result [OF assms(1) r] by simp
qed

lemma get_supported_python_versions_raised:
  assumes "load_toml ev w = (Inr (Some t), w')" and "classifiers_of_table t = Inl e"
  shows "get_supported_python_versions ev w = (Inl e, w')"
  using assms
  by (simp add: get_supported_python_versions_def get_classifiers_loaded pbind_def)

lemma get_python_requires_raised:
  assumes "load_toml ev w = (Inr (Some t), w')" and "python_requires_of_table t = Inl e"
  shows "get_python_requires ev w = (Inl e, w')"
  using assms
  by (simp add: get_python_requires_def get_python_requires_loaded pbind_def)

lemma doc_requires_number_raises:
  "classifiers_of_table doc_requires_number = Inl TypeError"
  "python_requires_of_table doc_requires_number = Inl TypeError"
  by (simp_all add: classifiers_of_table_def python_requires_of_table_def is_poetry_toml_def
      doc_requires_number_def ebind_def or_else_def has_key_def doc_get_def doc_getitem_def)

lemma doc_tool_number_raises:
  "classifiers_of_table doc_tool_number = Inl TypeError"
  "python_requires_of_table doc_tool_number = Inl TypeError"
  by (simp_all add: classifiers_of_table_def python_requires_of_table_def is_poetry_toml_def
      doc_tool_number_def ebind_def or_else_def has_key_def doc_get_def doc_getitem_def)

subsection \<open>The example file\<close>

lemma load_toml_on_disk:
  "load_toml (sample_env text t known) on_disk = (Inr (Some t), on_disk)"
  by (simp add: load_toml_def sample_env_def on_disk_def)

lemma flit_doc_detected:
  "is_poetry_toml (flit_doc entries) = Inr False"
  "or_else (is_setuptools_toml (flit_doc entries)) (is_flit_toml (flit_doc entries)) = Inr True"
  by (simp_all add: is_poetry_toml_def is_setuptools_toml_def is_flit_toml_def flit_doc_def
      flit_build_system_def or_else_def ebind_def has_key_def doc_get_def doc_getitem_def)

lemma flit_doc_empty_fields:
  "classifiers_shaped False True (flit_doc [])" "declared_classifiers False True (flit_doc []) = None"
  "python_requires_shaped False True (flit_doc [])" 
  "declared_python_requires False True (flit_doc []) = None"
  by (simp_all add: classifiers_shaped_def declared_classifiers_def python_requires_shaped_def
      declared_python_requires_def flit_doc_def)

text \<open>
  C1, as stated: every public operation returns none or the empty list silently on every
  document in which the field is absent. It fails twice. \<open>get_python_requires\<close> on the flit
  document without \<^verbatim>\<open>requires-python\<close> gives none and the diagnostic that the value is
  not a string, as the test \<^verbatim>\<open>test_get_python_requires_not_specified\<close> expects. And on
  \<open>doc_requires_number\<close>, which has no classifiers anywhere, the detector meets the number
  among the build requirements and \<open>get_supported_python_versions\<close> raises
  \<^verbatim>\<open>TypeError\<close> instead of returning.
\<close>

theorem absent_field_counterexample:
  "declared_python_requires False True (flit_doc []) = None \<and>
   get_python_requires (sample_env sample_text (flit_doc []) (python_versions 11)) on_disk =
     (Inr None, on_disk\<lparr>stderr := [NOT_A_STRING]\<rparr>) \<and>
   get_field (TTable doc_requires_number) [PROJECT, CLASSIFIERS] = None \<and>
   get_field (TTable doc_requires_number) [TOOL, POETRY, CLASSIFIERS] = None \<and>
   get_supported_python_versions
     (sample_env sample_text doc_requires_number (python_versions 11)) on_disk =
     (Inl TypeError, on_disk)"
proof -
  have "python_requires_of_table (flit_doc []) = Inr None"
    using python_requires_of_table_declared [OF flit_doc_detected, of "[]"] flit_doc_empty_fields
    by simp
  from get_python_requires_loaded_result [OF load_toml_on_disk this]
  have "get_python_requires (sample_env sample_text (flit_doc []) (python_versions 11)) on_disk =
     (Inr None, on_disk\<lparr>stderr := [NOT_A_STRING]\<rparr>)"
    by (simp add: on_disk_def)
  moreover have "get_supported_python_versions
     (sample_env sample_text doc_requires_number (python_versions 11)) on_disk =
     (Inl TypeError, on_disk)"
    using get_supported_python_versions_raised [OF load_toml_on_disk doc_requires_number_raises(1)] .
  ultimately show ?thesis
    by (simp add: flit_doc_empty_fields doc_requires_number_def)
qed

theorem absent_field_results_witness:
  "get_supported_python_versions (sample_env sample_text (flit_doc []) (python_versions 11)) on_disk
     = (Inr [], on_disk) \<and>
   update_supported_python_versions (sample_env sample_text (flit_doc []) (python_versions 11))
     [(3, 7)] on_disk = (Inr None, on_disk\<lparr>stderr := [NOT_AN_ARRAY]\<rparr>) \<and>
   update_python_requires (sample_env sample_text (flit_doc []) (python_versions 11))
     [(3, 7)] on_disk = (Inr None, on_disk) \<and>
   get_python_requires (sample_env sample_text (flit_doc []) (python_versions 11)) on_disk
     = (Inr None, on_disk\<lparr>stderr := [NOT_A_STRING]\<rparr>)"
  using absent_field_results [OF load_toml_on_disk flit_doc_detected, of "[]" "sample_text"
      "python_versions 11" "[(3, 7)]"] flit_doc_empty_fields
  by (simp add: on_disk_def)


text \<open>
  C10: a classifiers field that is present and holds the empty list. Extraction returns the
  empty list and writes nothing; the update returns none and writes the diagnostic that the
  value is not an array, although it is one.
\<close>

theorem empty_classifiers_asymmetry:
  assumes "load_toml ev w = (Inr (Some t), w')"
    and "is_poetry_toml t = Inr p"
    and "or_else (is_setuptools_toml t) (is_flit_toml t) = Inr s"
    and "classifiers_shaped p s t"
    and "declared_classifiers p s t = Some (TArray [])"
  shows "get_supported_python_versions ev w = (Inr [], w') \<and>
         update_supported_python_versions ev new_versions w =
           (Inr None, w'\<lparr>stderr := stderr w' @ [NOT_AN_ARRAY]\<rparr>)"
proof -
  have c: "classifiers_of_table t = Inr (TArray [])"
    using classifiers_of_table_declared [OF assms(2,3,4)] assms(5) by simp
  show ?thesis
    using get_supported_python_versions_loaded [OF assms(1) c]
      update_supported_python_versions_rejected [OF assms(1) c, of new_versions]
    by simp
qed

lemma flit_doc_empty_classifiers:
  "classifiers_shaped False True (flit_doc [(CLASSIFIERS, TArray [])])"
  "declared_classifiers False True (flit_doc [(CLASSIFIERS, TArray [])]) = Some (TArray [])"
  by (simp_all add: classifiers_shaped_def declared_classifiers_def flit_doc_def)

theorem empty_classifiers_asymmetry_witness:
  "get_supported_python_versions
     (sample_env sample_text (flit_doc [(CLASSIFIERS, TArray [])]) (python_versions 11)) on_disk
     = (Inr [], on_disk) \<and>
   update_supported_python_versions
     (sample_env sample_text (flit_doc [(CLASSIFIERS, TArray [])]) (python_versions 11))
     [(3, 7)] on_disk = (Inr None, on_disk\<lparr>stderr := [NOT_AN_ARRAY]\<rparr>)"
  using empty_classifiers_asymmetry [OF load_toml_on_disk flit_doc_detected
      flit_doc_empty_classifiers, of sample_text "python_versions 11" "[(3, 7)]"]
  by (simp add: on_disk_def)

text \<open>
  C9, as stated: for every input document \<open>get_supported_python_versions\<close> returns a list.
  It fails on \<open>doc_tool_number\<close>, where \<^verbatim>\<open>tool\<close> holds a number: the poetry detector
  raises \<^verbatim>\<open>TypeError\<close>, and neither extraction returns.
\<close>

theorem extract_raises_counterexample:
  "get_supported_python_versions
     (sample_env sample_text doc_tool_number (python_versions 11)) on_disk =
     (Inl TypeError, on_disk) \<and>
   get_python_requires
     (sample_env sample_text doc_tool_number (python_versions 11)) on_disk =
     (Inl TypeError, on_disk)"
  using get_supported_python_versions_raised [OF load_toml_on_disk doc_tool_number_raises(1)]
    get_python_requires_raised [OF load_toml_on_disk doc_tool_number_raises(2)]
  by simp

text \<open>
  C9, amended: the two extractions signal absence differently on every document that could
  be loaded, on which the schema detectors return an answer, and whose governing paths lead
  through tables. \<open>get_supported_python_versions\<close> returns the empty list when the
  classifiers are absent, empty or not an array, and otherwise returns what
  \<^verbatim>\<open>get_versions_from_classifiers\<close> returns for the array, a list or that function's
  error; its result type has no none. \<open>get_python_requires\<close> returns none when the field
  is absent or is not a string.
\<close>

theorem extract_absence_signals:
  assumes "load_toml ev w = (Inr (Some t), w')"
    and "is_poetry_toml t = Inr p"
    and "or_else (is_setuptools_toml t) (is_flit_toml t) = Inr s"
  shows "(classifiers_shaped p s t \<longrightarrow>
           (case declared_classifiers p s t of
              None \<Rightarrow> fst (get_supported_python_versions ev w) = Inr []
            | Some v \<Rightarrow>
                if \<not> py_truthy v \<or> \<not> is_list v
                then fst (get_supported_python_versions ev w) = Inr []
                else fst (get_supported_python_versions ev w) =
                       get_versions_from_classifiers ev (array_items v))) \<and>
         (python_requires_shaped p s t \<longrightarrow>
           (case declared_python_requires p s t of
              None \<Rightarrow> fst (get_python_requires ev w) = Inr None
            | Some v \<Rightarrow> \<not> is_str v \<longrightarrow> fst (get_python_requires ev w) = Inr None))"
proof (intro conjI impI)
  assume sh: "classifiers_shaped p s t"
  note c = classifiers_of_table_declared [OF assms(2,3) sh]
  show "case declared_classifiers p s t of
      None \<Rightarrow> fst (get_supported_python_versions ev w) = Inr []
    | Some v \<Rightarrow>
        if \<not> py_truthy v \<or> \<not> is_list v
        then fst (get_supported_python_versions ev w) = Inr []
        else fst (get_supported_python_versions ev w) =
               get_versions_from_classifiers ev (array_items v)"
    using get_supported_python_versions_loaded [OF assms(1) c]
    by (auto split: option.splits)
next
  assume sh: "python_requires_shaped p s t"
  note r = python_requires_of_table_declared [OF assms(2,3) sh]
  show "case declared_python_requires p s t of
      None \<Rightarrow> fst (get_python_requires ev w) = Inr None
    | Some v \<Rightarrow> \<not> is_str v \<longrightarrow> fst (get_python_requires ev w) = Inr None"
    using get_python_requires_loaded_result [OF assms(1) r]
    by (auto split: option.splits)
qed

lemma flit_doc_bad_fields:
  "classifiers_shaped False True
     (flit_doc [(CLASSIFIERS, TString MLL ''Python :: 2.7''), (PYTHON_REQUIRES, TArray [TString SLB ''>=3.6''])])"
  "declared_classifiers False True
     (flit_doc [(CLASSIFIERS, TString MLL ''Python :: 2.7''), (PYTHON_REQUIRES, TArray [TString SLB ''>=3.6''])])
     = Some (TString MLL ''Python :: 2.7'')"
  "python_requires_shaped False True
     (flit_doc [(CLASSIFIERS, TString MLL ''Python :: 2.7''), (PYTHON_REQUIRES, TArray [TString SLB ''>=3.6''])])"
  "declared_python_requires False True
     (flit_doc [(CLASSIFIERS, TString MLL ''Python :: 2.7''), (PYTHON_REQUIRES, TArray [TString SLB ''>=3.6''])])
     = Some (TArray [TString SLB ''>=3.6''])"
  by (simp_all add: classifiers_shaped_def declared_classifiers_def python_requires_shaped_def
      declared_python_requires_def flit_doc_def)

theorem extract_absence_signals_witness:
  "fst (get_supported_python_versions
     (sample_env sample_text
        (flit_doc [(CLASSIFIERS, TString MLL ''Python :: 2.7''),
                   (PYTHON_REQUIRES, TArray [TString SLB ''>=3.6''])]) (python_versions 11))
     on_disk) = Inr [] \<and>
   fst (get_python_requires
     (sample_env sample_text
        (flit_doc [(CLASSIFIERS, TString MLL ''Python :: 2.7''),
                   (PYTHON_REQUIRES, TArray [TString SLB ''>=3.6''])]) (python_versions 11))
     on_disk) = Inr None"
  using extract_absence_signals [OF load_toml_on_disk flit_doc_detected,
      of "[(CLASSIFIERS, TString MLL ''Python :: 2.7''),
           (PYTHON_REQUIRES, TArray [TString SLB ''>=3.6''])]" sample_text "python_versions 11"]
    flit_doc_bad_fields
  by simp

section \<open>The update of the python requirement\<close>








section \<open>What the operations do to an open file\<close>












section \<open>Examples of the range expression\<close>

lemma python_versions_2: "python_versions 2 =
  [(2,0),(2,1),(2,2),(2,3),(2,4),(2,5),(2,6),(2,7),(3,0),(3,1),(3,2)]"
  by (simp add: python_versions_def upt_rec)



lemma show_nat_one: "show_nat (Suc 0) = ''1''"
  by (subst show_nat.simps) simp

lemma show_nat_digits:
  "show_nat 0 = ''0''" "show_nat 1 = ''1''" "show_nat 2 = ''2''" "show_nat 3 = ''3''"
  "show_nat 4 = ''4''" "show_nat 5 = ''5''" "show_nat 6 = ''6''" "show_nat 7 = ''7''"
  "show_nat 8 = ''8''" "show_nat 9 = ''9''" "show_nat 10 = ''10''" "show_nat 11 = ''11''"
  by (simp_all add: show_nat.simps show_nat_one)


lemma compute_example_2:
  "compute_python_requires (python_versions 2) [(2,7),(3,2)] '','' [] =
     Inr ''>=2.7,!=3.0.*,!=3.1.*''"
  by (simp add: compute_python_requires_def python_versions_2 version_less_def render_def
      show_nat_digits show_nat_one)










section \<open>A multi-line string as the python requirement\<close>







section \<open>The comma style of the rewritten expression\<close>






section \<open>A document that two conventions accept\<close>

lemma map_of_alist_set:
  "map_of (alist_set k v kvs) k' = (if k' = k then Some v else map_of kvs k')"
  by (induction kvs) auto

lemma py_getitem_returns:
  "py_getitem x k = Inr y \<Longrightarrow> \<exists>kvs. x = TTable kvs \<and> map_of kvs k = Some y"
  by (cases x) (auto simp: doc_getitem_def split: option.splits)

lemma py_setitem_returns:
  "py_setitem x k v = Inr y \<Longrightarrow> \<exists>kvs. x = TTable kvs \<and> y = TTable (alist_set k v kvs)"
  by (cases x) auto

lemma doc_getitem_returns: "doc_getitem t k = Inr y \<Longrightarrow> map_of t k = Some y"
  by (auto simp: doc_getitem_def split: option.splits)

lemma ebind_returns: "ebind r f = Inr y \<Longrightarrow> \<exists>x. r = Inr x \<and> f x = Inr y"
  by (cases r) (auto simp: ebind_def)

lemma set_poetry_python_requires_returns:
  assumes "set_poetry_python_requires t v = Inr t'"
  shows "\<exists>tool poetry deps.
    map_of t TOOL = Some (TTable tool) \<and> map_of tool POETRY = Some (TTable poetry) \<and>
    map_of poetry DEPENDENCIES = Some (TTable deps) \<and>
    t' = alist_set TOOL (TTable (alist_set POETRY (TTable (alist_set DEPENDENCIES
           (TTable (alist_set PYTHON v deps)) poetry)) tool)) t"
proof -
  from assms obtain x1 x2 x3 x4 x5 x6 where
    a: "doc_getitem t TOOL = Inr x1" "py_getitem x1 POETRY = Inr x2"
      "py_getitem x2 DEPENDENCIES = Inr x3" "py_setitem x3 PYTHON v = Inr x4"
      "py_setitem x2 DEPENDENCIES x4 = Inr x5" "py_setitem x1 POETRY x5 = Inr x6"
      "t' = alist_set TOOL x6 t"
    unfolding set_poetry_python_requires_def
    by (auto dest!: ebind_returns)
  from a(2) obtain tool where t1: "x1 = TTable tool" "map_of tool POETRY = Some x2"
    using py_getitem_returns by blast
  from a(3) obtain poetry where t2: "x2 = TTable poetry" "map_of poetry DEPENDENCIES = Some x3"
    using py_getitem_returns by blast
  from a(4) obtain deps where t3: "x3 = TTable deps" "x4 = TTable (alist_set PYTHON v deps)"
    using py_setitem_returns by blast
  from a(1) have "map_of t TOOL = Some x1" by (rule doc_getitem_returns)
  with a t1 t2 t3 show ?thesis by auto
qed

lemma set_poetry_classifiers_returns:
  assumes "set_poetry_classifiers t v = Inr t'"
  shows "\<exists>tool poetry.
    map_of t TOOL = Some (TTable tool) \<and> map_of tool POETRY = Some (TTable poetry) \<and>
    t' = alist_set TOOL (TTable (alist_set POETRY (TTable (alist_set CLASSIFIERS v poetry))
           tool)) t"
proof -
  from assms obtain x1 x2 x3 x4 where
    a: "doc_getitem t TOOL = Inr x1" "py_getitem x1 POETRY = Inr x2"
      "py_setitem x2 CLASSIFIERS v = Inr x3" "py_setitem x1 POETRY x3 = Inr x4"
      "t' = alist_set TOOL x4 t"
    unfolding set_poetry_classifiers_def
    by (auto dest!: ebind_returns)
  from a(2) obtain tool where t1: "x1 = TTable tool" "map_of tool POETRY = Some x2"
    using py_getitem_returns by blast
  from a(3) obtain poetry where t2: "x2 = TTable poetry"
      "x3 = TTable (alist_set CLASSIFIERS v poetry)"
    using py_setitem_returns by blast
  from a(1) have "map_of t TOOL = Some x1" by (rule doc_getitem_returns)
  with a t1 t2 show ?thesis by auto
qed

lemma set_setuptools_flit_returns:
  "set_setuptools_flit_python_requires t v = Inr t' \<Longrightarrow>
     \<exists>pr. map_of t PROJECT = Some (TTable pr) \<and>
       t' = alist_set PROJECT (TTable (alist_set PYTHON_REQUIRES v pr)) t"
  "set_setuptools_flit_classifiers t v = Inr t' \<Longrightarrow>
     \<exists>pr. map_of t PROJECT = Some (TTable pr) \<and>
       t' = alist_set PROJECT (TTable (alist_set CLASSIFIERS v pr)) t"
  unfolding set_setuptools_flit_python_requires_def set_setuptools_flit_classifiers_def
  by (auto dest!: ebind_returns doc_getitem_returns py_setitem_returns)

lemma detectors_same:
  assumes "map_of t TOOL = Some (TTable tool)" and "map_of tool POETRY = Some x"
  shows "is_poetry_toml (alist_set TOOL (TTable (alist_set POETRY y tool)) t) = is_poetry_toml t"
    and "is_setuptools_toml (alist_set TOOL (TTable (alist_set POETRY y tool)) t) =
      is_setuptools_toml t"
    and "is_flit_toml (alist_set TOOL (TTable (alist_set POETRY y tool)) t) = is_flit_toml t"
proof -
  let ?t' = "alist_set TOOL (TTable (alist_set POETRY y tool)) t"
  have e1: "\<And>k. py_in k (doc_get ?t' TOOL (TTable [])) = py_in k (doc_get t TOOL (TTable []))"
    using assms by (auto simp: doc_get_def has_key_def map_of_alist_set)
  have e2: "has_key ?t' BUILD_SYSTEM = has_key t BUILD_SYSTEM"
    by (simp add: has_key_def map_of_alist_set)
  have e3: "doc_getitem ?t' BUILD_SYSTEM = doc_getitem t BUILD_SYSTEM"
    by (simp add: doc_getitem_def map_of_alist_set)
  show "is_poetry_toml ?t' = is_poetry_toml t"
    unfolding is_poetry_toml_def e1 e2 e3 ..
  show "is_setuptools_toml ?t' = is_setuptools_toml t"
    unfolding is_setuptools_toml_def e1 e2 e3 ..
  show "is_flit_toml ?t' = is_flit_toml t"
    unfolding is_flit_toml_def e1 e2 e3 ..
qed

lemma get_field_project_after_set:
  "get_field (TTable (alist_set PROJECT (TTable (alist_set k v pr)) t)) [PROJECT, k] = Some v"
  by (simp add: map_of_alist_set)

lemma get_field_tool_after_project:
  "get_field (TTable (alist_set PROJECT x t)) (TOOL # ks) = get_field (TTable t) (TOOL # ks)"
  by (simp add: map_of_alist_set)

text \<open>
  C7, amended: take a document that the poetry detector and the setuptools-or-flit test both
  accept. Extraction lets the later check win: when the paths to the field at both locations
  lead through tables, the classifiers that are read are those of the project table (the
  empty list when it has none), and the python requirement that is read is that of the
  project table (none when it has none). The update writes to both locations: whenever it
  returns, it returns the document with the new value in the project table and also under
  \<^verbatim>\<open>tool.poetry\<close>, for the classifiers and for the python requirement.
\<close>

theorem both_conventions:
  assumes "is_poetry_toml t = Inr True"
    and "or_else (is_setuptools_toml t) (is_flit_toml t) = Inr True"
  shows "(classifiers_shaped True True t \<longrightarrow>
            classifiers_of_table t =
              Inr (case get_field (TTable t) [PROJECT, CLASSIFIERS] of
                     None \<Rightarrow> TArray [] | Some c \<Rightarrow> c)) \<and>
         (python_requires_shaped True True t \<longrightarrow>
            python_requires_of_table t = Inr (get_field (TTable t) [PROJECT, PYTHON_REQUIRES])) \<and>
         (\<forall>r. update_classifiers_of_table t v = Inr r \<longrightarrow>
            (\<exists>t'. r = Some (Dumped t') \<and>
               get_field (TTable t') [PROJECT, CLASSIFIERS] = Some v \<and>
               get_field (TTable t') [TOOL, POETRY, CLASSIFIERS] = Some v)) \<and>
         (\<forall>r. update_python_requires_of_table t v = Inr r \<longrightarrow>
            (\<exists>t'. r = Some (Dumped t') \<and>
               get_field (TTable t') [PROJECT, PYTHON_REQUIRES] = Some v \<and>
               get_field (TTable t') [TOOL, POETRY, DEPENDENCIES, PYTHON] = Some v))"
proof (intro conjI impI allI)
  assume "classifiers_shaped True True t"
  from classifiers_of_table_declared [OF assms this]
  show "classifiers_of_table t =
      Inr (case get_field (TTable t) [PROJECT, CLASSIFIERS] of None \<Rightarrow> TArray [] | Some c \<Rightarrow> c)"
    by (simp add: declared_classifiers_def)
next
  assume "python_requires_shaped True True t"
  from python_requires_of_table_declared [OF assms this]
  show "python_requires_of_table t = Inr (get_field (TTable t) [PROJECT, PYTHON_REQUIRES])"
    by (simp add: declared_python_requires_def)
next
  fix r
  assume u: "update_classifiers_of_table t v = Inr r"
  then obtain t1 where s1: "set_poetry_classifiers t v = Inr t1"
    using assms(1) by (auto simp: update_classifiers_of_table_def ebind_def split: sum.splits)
  from set_poetry_classifiers_returns [OF s1] obtain tool poetry where
    p: "map_of t TOOL = Some (TTable tool)" "map_of tool POETRY = Some (TTable poetry)"
      "t1 = alist_set TOOL (TTable (alist_set POETRY (TTable (alist_set CLASSIFIERS v poetry))
             tool)) t"
    by blast
  have d: "or_else (is_setuptools_toml t1) (is_flit_toml t1) = Inr True"
    using assms(2) detectors_same [OF p(1,2)] p(3) by simp
  from u s1 d obtain t2 where s2: "set_setuptools_flit_classifiers t1 v = Inr t2"
    and r: "r = Some (Dumped t2)"
    using assms(1) by (auto simp: update_classifiers_of_table_def ebind_def split: sum.splits)
  from set_setuptools_flit_returns(2) [OF s2] obtain pr where
    q: "t2 = alist_set PROJECT (TTable (alist_set CLASSIFIERS v pr)) t1"
    by blast
  have "get_field (TTable t1) [TOOL, POETRY, CLASSIFIERS] = Some v"
    using p(3) by (simp add: map_of_alist_set)
  then have "get_field (TTable t2) [TOOL, POETRY, CLASSIFIERS] = Some v"
    using q get_field_tool_after_project by simp
  moreover have "get_field (TTable t2) [PROJECT, CLASSIFIERS] = Some v"
    using q get_field_project_after_set by simp
  ultimately show "\<exists>t'. r = Some (Dumped t') \<and>
      get_field (TTable t') [PROJECT, CLASSIFIERS] = Some v \<and>
      get_field (TTable t') [TOOL, POETRY, CLASSIFIERS] = Some v"
    using r by blast
next
  fix r
  assume u: "update_python_requires_of_table t v = Inr r"
  then obtain t1 where s1: "set_poetry_python_requires t v = Inr t1"
    using assms(1) by (auto simp: update_python_requires_of_table_def ebind_def split: sum.splits)
  from set_poetry_python_requires_returns [OF s1] obtain tool poetry deps where
    p: "map_of t TOOL = Some (TTable tool)" "map_of tool POETRY = Some (TTable poetry)"
      "t1 = alist_set TOOL (TTable (alist_set POETRY (TTable (alist_set DEPENDENCIES
             (TTable (alist_set PYTHON v deps)) poetry)) tool)) t"
    by blast
  have d: "or_else (is_setuptools_toml t1) (is_flit_toml t1) = Inr True"
    using assms(2) detectors_same [OF p(1,2)] p(3) by simp
  from u s1 d obtain t2 where s2: "set_setuptools_flit_python_requires t1 v = Inr t2"
    and r: "r = Some (Dumped t2)"
    using assms(1) by (auto simp: update_python_requires_of_table_def ebind_def split: sum.splits)
  from set_setuptools_flit_returns(1) [OF s2] obtain pr where
    q: "t2 = alist_set PROJECT (TTable (alist_set PYTHON_REQUIRES v pr)) t1"
    by blast
  have "get_field (TTable t1) [TOOL, POETRY, DEPENDENCIES, PYTHON] = Some v"
    using p(3) by (simp add: map_of_alist_set)
  then have "get_field (TTable t2) [TOOL, POETRY, DEPENDENCIES, PYTHON] = Some v"
    using q get_field_tool_after_project by simp
  moreover have "get_field (TTable t2) [PROJECT, PYTHON_REQUIRES] = Some v"
    using q get_field_project_after_set by simp
  ultimately show "\<exists>t'. r = Some (Dumped t') \<and>
      get_field (TTable t') [PROJECT, PYTHON_REQUIRES] = Some v \<and>
      get_field (TTable t') [TOOL, POETRY, DEPENDENCIES, PYTHON] = Some v"
    using r by blast
qed

lemma doc_dual_detected:
  "is_poetry_toml (doc_dual a b) = Inr True"
  "or_else (is_setuptools_toml (doc_dual a b)) (is_flit_toml (doc_dual a b)) = Inr True"
  by (simp_all add: doc_dual_def is_poetry_toml_def is_setuptools_toml_def or_else_def
      ebind_def doc_get_def has_key_def doc_getitem_def)

lemma doc_dual_updated:
  "update_python_requires_of_table (doc_dual a b) v = Inr (Some (Dumped (doc_dual v v)))"
proof -
  have s1: "set_poetry_python_requires (doc_dual a b) v = Inr (doc_dual v b)"
    by (simp add: set_poetry_python_requires_def doc_dual_def ebind_def doc_getitem_def)
  have s2: "set_setuptools_flit_python_requires (doc_dual v b) v = Inr (doc_dual v v)"
    by (simp add: set_setuptools_flit_python_requires_def doc_dual_def ebind_def
        doc_getitem_def)
  show ?thesis
    by (simp add: update_python_requires_of_table_def doc_dual_detected s1 s2 ebind_def)
qed

text \<open>
  C7, as stated: on a document that both detectors accept, the update writes to the project
  table and not to the poetry location. It fails on \<open>doc_dual\<close>: the returned document
  has the new value under \<^verbatim>\<open>tool.poetry.dependencies\<close> as well.
\<close>

theorem both_conventions_counterexample:
  "is_poetry_toml (doc_dual (TString SLB ''^3.6'') (TString SLB ''>=3.6'')) = Inr True \<and>
   or_else (is_setuptools_toml (doc_dual (TString SLB ''^3.6'') (TString SLB ''>=3.6'')))
     (is_flit_toml (doc_dual (TString SLB ''^3.6'') (TString SLB ''>=3.6''))) = Inr True \<and>
   update_python_requires_of_table (doc_dual (TString SLB ''^3.6'') (TString SLB ''>=3.6''))
     (TString SLB ''>=3.7'') =
     Inr (Some (Dumped (doc_dual (TString SLB ''>=3.7'') (TString SLB ''>=3.7'')))) \<and>
   get_field (TTable (doc_dual (TString SLB ''>=3.7'') (TString SLB ''>=3.7'')))
     [TOOL, POETRY, DEPENDENCIES, PYTHON] = Some (TString SLB ''>=3.7'')"
  by (simp add: doc_dual_detected doc_dual_updated) (simp add: doc_dual_def)

theorem both_conventions_witness:
  "python_requires_of_table (doc_dual (TString SLB ''^3.6'') (TString SLB ''>=3.6'')) =
     Inr (Some (TString SLB ''>=3.6'')) \<and>
   classifiers_of_table (doc_dual (TString SLB ''^3.6'') (TString SLB ''>=3.6'')) =
     Inr (TArray []) \<and>
   (\<exists>t'. update_python_requires_of_table
            (doc_dual (TString SLB ''^3.6'') (TString SLB ''>=3.6'')) (TString SLB ''>=3.7'') =
            Inr (Some (Dumped t')) \<and>
      get_field (TTable t') [PROJECT, PYTHON_REQUIRES] = Some (TString SLB ''>=3.7'') \<and>
      get_field (TTable t') [TOOL, POETRY, DEPENDENCIES, PYTHON] = Some (TString SLB ''>=3.7''))"
proof -
  let ?t = "doc_dual (TString SLB ''^3.6'') (TString SLB ''>=3.6'')"
  have sh: "classifiers_shaped True True ?t" "python_requires_shaped True True ?t"
    by (simp_all add: classifiers_shaped_def python_requires_shaped_def doc_dual_def)
  have f: "get_field (TTable ?t) [PROJECT, PYTHON_REQUIRES] = Some (TString SLB ''>=3.6'')"
    "get_field (TTable ?t) [PROJECT, CLASSIFIERS] = None"
    by (simp_all add: doc_dual_def)
  from both_conventions [OF doc_dual_detected, of "TString SLB ''^3.6''" "TString SLB ''>=3.6''"
      "TString SLB ''>=3.7''"] sh f doc_dual_updated [of "TString SLB ''^3.6''" "TString SLB ''>=3.6''"
      "TString SLB ''>=3.7''"]
  show ?thesis by auto
qed

end
